theory Spec2Isabelle
  imports Main "HOL-Library.Sublist"
begin

section \<open>Python strings\<close>

text \<open>
  A Python \<open>str\<close> is a sequence of Unicode code points. It is modelled as a list of
  code points (natural numbers), so that \<open>length\<close> counts what Python's \<open>len\<close> counts
  and \<open>str.strip()\<close> sees every whitespace code point, not only the ASCII ones.
  \<open>str\<close> turns an ASCII literal into such a sequence.
\<close>

type_synonym pystr = "nat list"

definition str :: "string \<Rightarrow> pystr" where
  "str s = map of_char s"

definition backtick :: nat where
  "backtick = 96"

text \<open>
  \<open>str.isspace()\<close> on one code point: the code points CPython's
  \<open>_PyUnicode_IsWhitespace\<close> accepts (tab to carriage return, the separators
  0x1C to 0x1F, space, NEL, no-break space, and the Unicode space separators).
\<close>

definition isspace :: "nat \<Rightarrow> bool" where
  "isspace c =
     ((9 \<le> c \<and> c \<le> 13) \<or> (28 \<le> c \<and> c \<le> 32) \<or> c = 133 \<or> c = 160 \<or> c = 5760 \<or>
      (8192 \<le> c \<and> c \<le> 8202) \<or> c = 8232 \<or> c = 8233 \<or> c = 8239 \<or> c = 8287 \<or>
      c = 12288)"

text \<open>
  \<open>s.strip()\<close> and \<open>s.strip(chars)\<close>: CPython advances an index from the left while
  the character is in the set, then one from the right, and returns the slice between
  them. \<open>chars\<close> is a set of characters, not a prefix or suffix.
\<close>

definition strip_where :: "(nat \<Rightarrow> bool) \<Rightarrow> pystr \<Rightarrow> pystr" where
  "strip_where p s = rev (dropWhile p (rev (dropWhile p s)))"

definition strip :: "pystr \<Rightarrow> pystr" where
  "strip s = strip_where isspace s"

definition strip_chars :: "pystr \<Rightarrow> pystr \<Rightarrow> pystr" where
  "strip_chars chars s = strip_where (\<lambda>c. c \<in> set chars) s"

text \<open>
  \<open>str(n)\<close> for a non-negative integer, as the f-string renders \<open>{i + 1}\<close>.
\<close>

fun str_int :: "nat \<Rightarrow> pystr" where
  "str_int n = (if n < 10 then [48 + n] else str_int (n div 10) @ [48 + n mod 10])"

declare str_int.simps [simp del]

text \<open>\<open>sep.join(parts)\<close>.\<close>

fun join :: "pystr \<Rightarrow> pystr list \<Rightarrow> pystr" where
  "join sep [] = []"
| "join sep [x] = x"
| "join sep (x # y # ys) = x @ sep @ join sep (y # ys)"

section \<open>dockershrink/ai.py\<close>

subsection \<open>Module constants (lines 6 to 51)\<close>

definition openai_model :: pystr where
  "openai_model = str ''gpt-4o-2024-08-06''"

text \<open>
  The three prompt literals are Python triple-quoted strings: each starts with the
  newline after the opening quotes and ends with the newline before the closing ones.
\<close>

definition multistage_system_prompt :: pystr where
\<open>multistage_system_prompt = str ''
You are an expert software and DevOps engineer who specializes in Docker and NodeJS backend applications.

Given a Nodejs project that contains a Docker image definition to containerize it, your goal is to reduce the size of the docker image as much as possible, while still keeping the code legible and developer-friendly.

As part of this request, your only task is to modify the given single-stage Dockerfile to adopt Multistage builds.
Multistage is beneficial because the final image produced (final stage) uses a slim base image and only contains things that we put in it.
Create a final stage in the Dockerfile which only contains the application source code, its dependencies (excluding "devDependencies" from package.json) and anything else you think is necessary for the app at runtime or relevant to the final image.

* The final stage must use a slim base image if possible. If the previous stage uses a specific version of NodeJS, make sure to use the same version.
* If possible, set the `NODE_ENV` environment variable to `production`. This should be done BEFORE running any commands related to nodejs or npm. This ensures that dev dependencies are not installed in the final stage.
* Do a fresh install of the dependencies (node_modules) in the final stage and exclude dev dependencies. Do not change the installation commands in the previous stage and don't copy node_modules from the previous stage.
* Try to keep your code changes as consistent with the original code as possible. For example, if the previous stage uses "npm install" for installing dependencies, don't replace it with "npm ci". Try to use "install" only.
* If the previous stage contains some metadata such as LABEL statements, make sure to include them in the final stage as well, if you think it is relevant.
* Comments should be added only in the new stage that you're writing. Don't add any comments in the previous stage unless you need to make an important remark. But don't remove any comments that already exist.
* If the previous stage contains any `RUN` statements invoking any npm scripts like `npm run build`, the commands in this script will also be shared with you so you can understand its behaviour.
* Do not delete any statements originally present in the Dockerfile. If you don't understand what they're being used for (like custom scripts), just ignore them. Don't include them to the new stage.

After writing all the code, review it step-by-step and think what the final image would contain to ensure you didn't accidentally leave out anything important.

* Return only the Dockerfile code in your reply
* Do not include any additional formatting, such as markdown code blocks
''\<close>

text \<open>
  \<open>_multistage_user_prompt.format(dockerfile=dockerfile)\<close>: the template has the one
  replacement field \<open>{dockerfile}\<close>, and \<open>format\<close> puts the argument there as it is.
\<close>

definition multistage_user_prompt :: "pystr \<Rightarrow> pystr" where
\<open>multistage_user_prompt dockerfile = str ''
Optimize this Dockerfile:

```
'' @ dockerfile @ str ''
```
''\<close>

definition prompt_npm_scripts_invoked :: pystr where
\<open>prompt_npm_scripts_invoked = str ''
-- Details of NPM scripts invoked --

NOTE:
- "script" is the npm script you see in the Dockerfile (eg- "npm run test")
- "commands" is the set of commands defined inside package.json for the particular npm script.
  For example, if package.json is `{"scripts": {"test": "gulp ."}}`, then this field's value will be "gulp ." because the "script" invoked is "test".
- the commands for all npm scripts are extracted from package.json.

LIST OF SCRIPTS:

''\<close>

subsection \<open>Data of the call\<close>

text \<open>
  The exceptions the call can end with: a missing dictionary key, \<open>choices[0]\<close> on an
  empty list, \<open>.strip()\<close> on \<open>None\<close>, and whatever the provider's client raises.
\<close>

datatype error = KeyError pystr | IndexError | AttributeError | ProviderError pystr

text \<open>
  A script is a \<open>Dict[str, str]\<close>. A message is the dictionary
  \<open>{"role": ..., "content": ...}\<close> of lines 79 to 86, and a request holds the two keyword
  arguments of \<open>chat.completions.create\<close>. Of the completion, the call reads
  \<open>completion.choices[0].message.content\<close>, which may be \<open>None\<close>.
\<close>

type_synonym script = "pystr \<rightharpoonup> pystr"

record message =
  role :: pystr
  content :: pystr

record request =
  messages :: "message list"
  model :: pystr

record chat_message =
  message_content :: "pystr option"

record choice =
  message :: chat_message

record chat_completion =
  choices :: "choice list"

text \<open>
  \<open>self._client.chat.completions.create\<close>: the provider is outside the program. It
  answers a request with a completion or raises, and whatever else it does (the
  network, its own state) is a change of a state \<open>'s\<close> that only it touches.
\<close>

type_synonym 's client = "request \<Rightarrow> 's \<Rightarrow> (error + chat_completion) \<times> 's"

subsection \<open>The user prompt (lines 63 to 76)\<close>

text \<open>\<open>d[key]\<close> on a dictionary.\<close>

definition getitem :: "script \<Rightarrow> pystr \<Rightarrow> error + pystr" where
  "getitem d key = (case d key of None \<Rightarrow> Inl (KeyError key) | Some v \<Rightarrow> Inr v)"

text \<open>
  The f-string of lines 70 to 72, for the loop index \<open>i\<close>: it spans two lines of the
  source and ends with a newline.
\<close>

definition description :: "nat \<Rightarrow> script \<Rightarrow> error + pystr" where
\<open>description i script =
   (case getitem script (str ''script'') of
      Inl e \<Rightarrow> Inl e
    | Inr s \<Rightarrow>
       (case getitem script (str ''commands'') of
          Inl e \<Rightarrow> Inl e
        | Inr c \<Rightarrow> Inr (str_int (i + 1) @ str ''. script: `'' @ s @ str ''`
commands: `'' @ c @ str ''`
'')))\<close>

text \<open>
  The loop \<open>for i in range(len(scripts))\<close> of lines 68 to 73, from index \<open>i\<close> on, with
  the list \<open>scripts_description\<close> built so far.
\<close>

function scripts_description_loop :: "script list \<Rightarrow> nat \<Rightarrow> pystr list \<Rightarrow> error + pystr list" where
  "scripts_description_loop scripts i scripts_description =
     (if i < length scripts then
        (case description i (scripts ! i) of
           Inl e \<Rightarrow> Inl e
         | Inr d \<Rightarrow> scripts_description_loop scripts (i + 1) (scripts_description @ [d]))
      else Inr scripts_description)"
  by pat_completeness auto
termination
  by (relation "measure (\<lambda>(scripts, i, acc). length scripts - i)") auto

declare scripts_description_loop.simps [simp del]

text \<open>
  Lines 63 to 76. \<open>os_linesep\<close> is \<open>os.linesep\<close>, which the platform fixes: a line feed
  on POSIX, a carriage return and a line feed on Windows.
\<close>

definition user_prompt :: "pystr \<Rightarrow> pystr \<Rightarrow> script list \<Rightarrow> error + pystr" where
  "user_prompt os_linesep dockerfile scripts =
     (if scripts \<noteq> [] then
        (case scripts_description_loop scripts 0 [] of
           Inl e \<Rightarrow> Inl e
         | Inr scripts_description \<Rightarrow>
             Inr (multistage_user_prompt dockerfile @
                  prompt_npm_scripts_invoked @ join os_linesep scripts_description))
      else Inr (multistage_user_prompt dockerfile))"

subsection \<open>The request (lines 78 to 93)\<close>

definition completion_request :: "pystr \<Rightarrow> pystr \<Rightarrow> script list \<Rightarrow> error + request" where
  "completion_request os_linesep dockerfile scripts =
     (case user_prompt os_linesep dockerfile scripts of
        Inl e \<Rightarrow> Inl e
      | Inr up \<Rightarrow>
          Inr \<lparr>messages =
                 [\<lparr>role = str ''system'', content = multistage_system_prompt\<rparr>,
                  \<lparr>role = str ''user'', content = up\<rparr>],
               model = openai_model\<rparr>)"

subsection \<open>The response (lines 94 to 99)\<close>

text \<open>
  \<^verbatim>\<open>response = response.strip().strip("```").strip()\<close>
\<close>

definition sanitize :: "pystr \<Rightarrow> pystr" where
  "sanitize response = strip (strip_chars (str ''```'') (strip response))"

definition response_text :: "chat_completion \<Rightarrow> error + pystr" where
  "response_text completion =
     (case choices completion of
        [] \<Rightarrow> Inl IndexError
      | c # _ \<Rightarrow>
         (case message_content (message c) of
            None \<Rightarrow> Inl AttributeError
          | Some response \<Rightarrow> Inr (sanitize response)))"

subsection \<open>\<open>AIService.add_multistage_builds\<close>\<close>

text \<open>
  The whole method: the result or the exception it raises, and the provider's state
  after the call. An exception while the prompt is rendered leaves the provider
  untouched; one the provider raises propagates.
\<close>

definition add_multistage_builds ::
  "'s client \<Rightarrow> pystr \<Rightarrow> pystr \<Rightarrow> script list \<Rightarrow> 's \<Rightarrow> (error + pystr) \<times> 's" where
  "add_multistage_builds create os_linesep dockerfile scripts s =
     (case completion_request os_linesep dockerfile scripts of
        Inl e \<Rightarrow> (Inl e, s)
      | Inr req \<Rightarrow>
         (case create req s of
            (Inl e, s') \<Rightarrow> (Inl e, s')
          | (Inr completion, s') \<Rightarrow> (response_text completion, s')))"

section \<open>Vocabulary of the properties\<close>

text \<open>
  The specification's ScriptDescriptor is a script dictionary that has both keys the
  f-string reads.
\<close>

definition script_descriptor :: "script \<Rightarrow> bool" where
  "script_descriptor script =
     (script (str ''script'') \<noteq> None \<and> script (str ''commands'') \<noteq> None)"

text \<open>
  A stubbed provider: it gives every request the same answer and keeps the list of the
  requests it has received.
\<close>

definition stub_client :: "error + chat_completion \<Rightarrow> request list client" where
  "stub_client answer req sent = (answer, sent @ [req])"

text \<open>A completion with one choice, whose message has the given content.\<close>

definition completion_of :: "pystr option \<Rightarrow> chat_completion" where
  "completion_of c = \<lparr>choices = [\<lparr>message = \<lparr>message_content = c\<rparr>\<rparr>]\<rparr>"

text \<open>Two script dictionaries for the examples.\<close>

definition build_tsc :: script where
  "build_tsc = [str ''script'' \<mapsto> str ''build'', str ''commands'' \<mapsto> str ''tsc'']"

definition test_jest :: script where
  "test_jest = [str ''script'' \<mapsto> str ''test'', str ''commands'' \<mapsto> str ''jest'']"

text \<open>
  What the loop appends for index \<open>i\<close> when the dictionary has both keys.
\<close>

definition entry :: "nat \<Rightarrow> script \<Rightarrow> pystr" where
\<open>entry i script =
   str_int (i + 1) @ str ''. script: `'' @ the (script (str ''script'')) @ str ''`
commands: `'' @ the (script (str ''commands'')) @ str ''`
''\<close>

text \<open>
  The numbered line as the specification words it: one line, a space before
  \<open>commands:\<close>, no newline at its end.
\<close>

definition spec_script_line :: "nat \<Rightarrow> pystr \<Rightarrow> pystr \<Rightarrow> pystr" where
  "spec_script_line i script commands =
     str_int i @ str ''. script: `'' @ script @ str ''` commands: `'' @ commands @ str ''`''"


text \<open>
  A string begins or ends with a character of the class \<open>p\<close>; a string contains a
  markdown code fence.
\<close>

definition starts_or_ends_with :: "(nat \<Rightarrow> bool) \<Rightarrow> pystr \<Rightarrow> bool" where
  "starts_or_ends_with p s = (s \<noteq> [] \<and> (p (hd s) \<or> p (last s)))"



section \<open>Properties of the string operations\<close>

lemma strip_where_Nil [simp]: "strip_where p [] = []"
  by (simp add: strip_where_def)

lemma set_strip_where: "set (strip_where p s) \<subseteq> set s"
  by (auto simp: strip_where_def dest!: set_dropWhileD)

lemma length_strip_where: "length (strip_where p s) \<le> length s"
  unfolding strip_where_def
  by (metis length_dropWhile_le length_rev order_trans)

lemma strip_where_last: "strip_where p s \<noteq> [] \<Longrightarrow> \<not> p (last (strip_where p s))"
  unfolding strip_where_def
  by (simp add: last_rev hd_dropWhile)

lemma last_dropWhile: "dropWhile p xs \<noteq> [] \<Longrightarrow> last (dropWhile p xs) = last xs"
  by (metis last_appendR takeWhile_dropWhile_id)

lemma strip_where_hd: "strip_where p s \<noteq> [] \<Longrightarrow> \<not> p (hd (strip_where p s))"
proof -
  assume ne: "strip_where p s \<noteq> []"
  let ?t = "dropWhile p s"
  let ?u = "dropWhile p (rev ?t)"
  from ne have u: "?u \<noteq> []" by (simp add: strip_where_def)
  then have t: "?t \<noteq> []" by (metis dropWhile.simps(1) rev.simps(1))
  have "hd (strip_where p s) = last ?u"
    using u by (simp add: strip_where_def hd_rev)
  also have "\<dots> = last (rev ?t)" using u by (rule last_dropWhile)
  also have "\<dots> = hd ?t" using t by (simp add: last_rev)
  finally show ?thesis using t by (simp add: hd_dropWhile)
qed

lemma strip_where_clean: "\<not> starts_or_ends_with p (strip_where p s)"
  unfolding starts_or_ends_with_def using strip_where_hd strip_where_last by blast

lemma strip_where_id:
  assumes "\<not> starts_or_ends_with p s"
  shows "strip_where p s = s"
proof (cases "s = []")
  case True
  then show ?thesis by simp
next
  case False
  with assms have h: "\<not> p (hd s)" and l: "\<not> p (last s)"
    by (auto simp: starts_or_ends_with_def)
  from False h have "dropWhile p s = s" by (cases s) auto
  moreover from False l have "dropWhile p (rev s) = rev s"
    by (cases "rev s") (auto simp: last_rev dest: arg_cong[where f = hd])
  ultimately show ?thesis by (simp add: strip_where_def)
qed

lemma dropWhile_hd_shorter: "xs \<noteq> [] \<Longrightarrow> p (hd xs) \<Longrightarrow> length (dropWhile p xs) < length xs"
  by (cases xs) (auto simp: less_Suc_eq_le length_dropWhile_le)

lemma strip_where_shorter:
  assumes "starts_or_ends_with p s"
  shows "length (strip_where p s) < length s"
proof -
  let ?t = "dropWhile p s"
  from assms have ne: "s \<noteq> []" and ends: "p (hd s) \<or> p (last s)"
    by (auto simp: starts_or_ends_with_def)
  have len: "length (strip_where p s) \<le> length ?t"
    by (simp add: strip_where_def length_dropWhile_le order_trans[OF length_dropWhile_le])
  show ?thesis
  proof (cases "p (hd s)")
    case True
    with ne have "length ?t < length s" by (rule dropWhile_hd_shorter)
    with len show ?thesis by simp
  next
    case False
    with ends have l: "p (last s)" by simp
    from False ne have t: "?t = s" by (cases s) auto
    from ne l have "length (dropWhile p (rev s)) < length (rev s)"
      by (intro dropWhile_hd_shorter) (simp_all add: hd_rev)
    with t show ?thesis by (simp add: strip_where_def)
  qed
qed



lemma isspace_backtick [simp]: "\<not> isspace backtick"
  by (simp add: isspace_def backtick_def)

lemma strip_chars_fence: "strip_chars (str ''```'') s = strip_where (\<lambda>c. c = backtick) s"
  by (simp add: strip_chars_def backtick_def str_def)

lemma hd_fence [simp]: "hd (str ''```'') = backtick" "last (str ''```'') = backtick" "str ''```'' \<noteq> []"
  by (simp_all add: backtick_def str_def)

lemma sanitize_no_space_ends: "\<not> starts_or_ends_with isspace (sanitize response)"
  by (simp add: sanitize_def strip_def strip_where_clean)










section \<open>Properties of the prompt rendering\<close>

lemma description_descriptor:
  "script_descriptor script \<Longrightarrow> description i script = Inr (entry i script)"
  by (auto simp: script_descriptor_def description_def getitem_def entry_def)

lemma loop_descriptors:
  "list_all script_descriptor scripts \<Longrightarrow>
   scripts_description_loop scripts i acc =
     Inr (acc @ map (\<lambda>j. entry j (scripts ! j)) [i ..< length scripts])"
proof (induction scripts i acc rule: scripts_description_loop.induct)
  case (1 scripts i acc)
  show ?case
  proof (cases "i < length scripts")
    case True
    with "1.prems" have d: "description i (scripts ! i) = Inr (entry i (scripts ! i))"
      by (simp add: description_descriptor list_all_length)
    from True d "1.prems" have
      "scripts_description_loop scripts (i + 1) (acc @ [entry i (scripts ! i)]) =
         Inr ((acc @ [entry i (scripts ! i)]) @ map (\<lambda>j. entry j (scripts ! j)) [i + 1 ..< length scripts])"
      by (intro "1.IH") auto
    with True d show ?thesis
      by (subst scripts_description_loop.simps) (simp add: upt_conv_Cons)
  next
    case False
    then show ?thesis
      by (subst scripts_description_loop.simps) simp
  qed
qed

lemma user_prompt_descriptors:
  "list_all script_descriptor scripts \<Longrightarrow>
   user_prompt os_linesep dockerfile scripts =
     Inr (if scripts \<noteq> [] then
            multistage_user_prompt dockerfile @ prompt_npm_scripts_invoked @
            join os_linesep (map (\<lambda>j. entry j (scripts ! j)) [0 ..< length scripts])
          else multistage_user_prompt dockerfile)"
  by (simp add: user_prompt_def loop_descriptors)

lemma completion_request_descriptors:
  assumes "list_all script_descriptor scripts"
  shows "\<exists>up. user_prompt os_linesep dockerfile scripts = Inr up \<and>
          completion_request os_linesep dockerfile scripts =
            Inr \<lparr>messages =
                   [\<lparr>role = str ''system'', content = multistage_system_prompt\<rparr>,
                    \<lparr>role = str ''user'', content = up\<rparr>],
                 model = openai_model\<rparr>"
  using assms by (simp add: completion_request_def user_prompt_descriptors)

lemma description_missing:
  "\<not> script_descriptor script \<Longrightarrow> \<exists>key. description i script = Inl (KeyError key)"
  by (auto simp: script_descriptor_def description_def getitem_def split: option.splits)

lemma loop_missing_key:
  "\<not> list_all script_descriptor (drop i scripts) \<Longrightarrow>
   \<exists>key. scripts_description_loop scripts i acc = Inl (KeyError key)"
proof (induction scripts i acc rule: scripts_description_loop.induct)
  case (1 scripts i acc)
  from "1.prems" have lt: "i < length scripts"
    by (cases "i < length scripts") auto
  then have split: "drop i scripts = scripts ! i # drop (i + 1) scripts"
    by (simp add: Cons_nth_drop_Suc)
  show ?case
  proof (cases "script_descriptor (scripts ! i)")
    case True
    then have d: "description i (scripts ! i) = Inr (entry i (scripts ! i))"
      by (rule description_descriptor)
    from True "1.prems" split have "\<not> list_all script_descriptor (drop (i + 1) scripts)"
      by simp
    with lt d have "\<exists>key. scripts_description_loop scripts (i + 1) (acc @ [entry i (scripts ! i)]) =
        Inl (KeyError key)"
      by (intro "1.IH") auto
    with lt d show ?thesis
      by (subst scripts_description_loop.simps) simp
  next
    case False
    then obtain key where "description i (scripts ! i) = Inl (KeyError key)"
      using description_missing by blast
    with lt show ?thesis
      by (subst scripts_description_loop.simps) simp
  qed
qed

lemma completion_request_missing_key:
  assumes "\<not> list_all script_descriptor scripts"
  shows "\<exists>key. completion_request os_linesep dockerfile scripts = Inl (KeyError key)"
proof -
  from assms have ne: "scripts \<noteq> []" by auto
  from assms obtain key where "scripts_description_loop scripts 0 [] = Inl (KeyError key)"
    using loop_missing_key [of 0 scripts "[]"] by auto
  with ne show ?thesis
    by (simp add: completion_request_def user_prompt_def)
qed

section \<open>Claims\<close>

subsection \<open>C1\<close>

text \<open>
  C1. Sanitizing the completion \<open>```dockerfile\nFROM node\n```\<close> should give exactly
  \<open>FROM node\<close>. The code strips the backtick characters and the surrounding
  whitespace only: the language tag \<open>dockerfile\<close> and the newline after it stay, and the
  result is \<open>dockerfile\nFROM node\<close>.
\<close>

theorem sanitize_keeps_language_tag:
  "sanitize (str ''```dockerfile\<newline>FROM node\<newline>```'') = str ''dockerfile\<newline>FROM node''
   \<and> sanitize (str ''```dockerfile\<newline>FROM node\<newline>```'') \<noteq> str ''FROM node''"
  by (simp add: sanitize_def strip_def strip_chars_def strip_where_def isspace_def str_def)

subsection \<open>C2\<close>

text \<open>
  C2. An empty dockerfile is not rejected: the method has no input check. For every
  scripts sequence of script descriptors, the request is built with an empty fenced
  block in the user prompt, the provider is called with it, and the outcome of the
  call is whatever follows from the provider's answer.
\<close>

theorem empty_dockerfile_reaches_provider:
  assumes "list_all script_descriptor scripts"
  shows "\<exists>req. completion_request os_linesep [] scripts = Inr req \<and>
           prefix (str ''\<newline>Optimize this Dockerfile:\<newline>\<newline>```\<newline>\<newline>```\<newline>'')
             (content (messages req ! 1)) \<and>
           add_multistage_builds create os_linesep [] scripts s =
             (case create req s of
                (Inl e, s') \<Rightarrow> (Inl e, s')
              | (Inr completion, s') \<Rightarrow> (response_text completion, s'))"
proof -
  from assms obtain up where
    up: "user_prompt os_linesep [] scripts = Inr up" and
    req: "completion_request os_linesep [] scripts =
            Inr \<lparr>messages =
                   [\<lparr>role = str ''system'', content = multistage_system_prompt\<rparr>,
                    \<lparr>role = str ''user'', content = up\<rparr>],
                 model = openai_model\<rparr>"
    using completion_request_descriptors by blast
  from assms up have "prefix (multistage_user_prompt []) up"
    by (auto simp: user_prompt_descriptors split: if_splits)
  then have "prefix (str ''\<newline>Optimize this Dockerfile:\<newline>\<newline>```\<newline>\<newline>```\<newline>'') up"
    by (simp add: multistage_user_prompt_def str_def)
  with req show ?thesis
    by (simp add: add_multistage_builds_def)
qed

theorem empty_dockerfile_reaches_provider_witness:
  "list_all script_descriptor [build_tsc] \<and>
   add_multistage_builds (stub_client (Inr (completion_of (Some (str ''```\<newline>FROM node\<newline>```'')))))
     (str ''\<newline>'') [] [build_tsc] [] =
   (Inr (str ''FROM node''),
    [\<lparr>messages =
        [\<lparr>role = str ''system'', content = multistage_system_prompt\<rparr>,
         \<lparr>role = str ''user'',
          content = str ''\<newline>Optimize this Dockerfile:\<newline>\<newline>```\<newline>\<newline>```\<newline>'' @ prompt_npm_scripts_invoked @
                    str ''1. script: `build`\<newline>commands: `tsc`\<newline>''\<rparr>],
      model = openai_model\<rparr>])"
proof -
  have ok: "list_all script_descriptor [build_tsc]"
    by (simp add: script_descriptor_def build_tsc_def str_def)
  have req: "completion_request (str ''\<newline>'') [] [build_tsc] =
     Inr \<lparr>messages =
        [\<lparr>role = str ''system'', content = multistage_system_prompt\<rparr>,
         \<lparr>role = str ''user'',
          content = str ''\<newline>Optimize this Dockerfile:\<newline>\<newline>```\<newline>\<newline>```\<newline>'' @ prompt_npm_scripts_invoked @
                    str ''1. script: `build`\<newline>commands: `tsc`\<newline>''\<rparr>],
      model = openai_model\<rparr>"
    by (simp add: completion_request_def user_prompt_def scripts_description_loop.simps
        description_def getitem_def build_tsc_def multistage_user_prompt_def str_int.simps str_def)
  have "sanitize (str ''```\<newline>FROM node\<newline>```'') = str ''FROM node''"
    by (simp add: sanitize_def strip_def strip_chars_def strip_where_def isspace_def str_def)
  with ok req
    empty_dockerfile_reaches_provider [OF ok, of "str ''\<newline>''"
      "stub_client (Inr (completion_of (Some (str ''```\<newline>FROM node\<newline>```''))))" "[]"]
  show ?thesis
    by (auto simp: stub_client_def response_text_def completion_of_def)
qed

theorem empty_dockerfile_not_rejected:
  "add_multistage_builds (stub_client (Inr (completion_of (Some (str ''FROM node'')))))
     (str ''\<newline>'') [] [] [] =
   (Inr (str ''FROM node''),
    [\<lparr>messages =
        [\<lparr>role = str ''system'', content = multistage_system_prompt\<rparr>,
         \<lparr>role = str ''user'', content = str ''\<newline>Optimize this Dockerfile:\<newline>\<newline>```\<newline>\<newline>```\<newline>''\<rparr>],
      model = openai_model\<rparr>])"
proof -
  have "sanitize (str ''FROM node'') = str ''FROM node''"
    by (simp add: sanitize_def strip_def strip_chars_def strip_where_def isspace_def str_def)
  then show ?thesis
    by (simp add: add_multistage_builds_def completion_request_def user_prompt_def
        multistage_user_prompt_def stub_client_def response_text_def completion_of_def str_def)
qed

subsection \<open>C3\<close>

text \<open>
  C3. When the first choice's content is \<open>None\<close>, the call ends with the
  \<open>AttributeError\<close> of \<open>None.strip()\<close>: it fails, though with no error of its own. When
  the content is the empty string, the call returns the empty string.
\<close>

theorem missing_content_raises_empty_content_returns:
  assumes "completion_request os_linesep dockerfile scripts = Inr req"
    and "create req s = (Inr completion, s')"
    and "choices completion = c # cs"
  shows "(message_content (message c) = None \<longrightarrow>
            add_multistage_builds create os_linesep dockerfile scripts s = (Inl AttributeError, s')) \<and>
         (message_content (message c) = Some [] \<longrightarrow>
            add_multistage_builds create os_linesep dockerfile scripts s = (Inr [], s'))"
  using assms
  by (simp add: add_multistage_builds_def response_text_def sanitize_def strip_def
      strip_chars_def strip_where_def)

theorem missing_content_raises_witness:
  "completion_request (str ''\<newline>'') (str ''FROM node'') [] =
     Inr \<lparr>messages =
        [\<lparr>role = str ''system'', content = multistage_system_prompt\<rparr>,
         \<lparr>role = str ''user'', content = multistage_user_prompt (str ''FROM node'')\<rparr>],
      model = openai_model\<rparr> \<and>
   add_multistage_builds (stub_client (Inr (completion_of None))) (str ''\<newline>'')
     (str ''FROM node'') [] [] =
   (Inl AttributeError,
    [\<lparr>messages =
        [\<lparr>role = str ''system'', content = multistage_system_prompt\<rparr>,
         \<lparr>role = str ''user'', content = multistage_user_prompt (str ''FROM node'')\<rparr>],
      model = openai_model\<rparr>]) \<and>
   add_multistage_builds (stub_client (Inr (completion_of (Some [])))) (str ''\<newline>'')
     (str ''FROM node'') [] [] =
   (Inr [],
    [\<lparr>messages =
        [\<lparr>role = str ''system'', content = multistage_system_prompt\<rparr>,
         \<lparr>role = str ''user'', content = multistage_user_prompt (str ''FROM node'')\<rparr>],
      model = openai_model\<rparr>])"
proof -
  let ?req = "\<lparr>messages =
        [\<lparr>role = str ''system'', content = multistage_system_prompt\<rparr>,
         \<lparr>role = str ''user'', content = multistage_user_prompt (str ''FROM node'')\<rparr>],
      model = openai_model\<rparr>"
  have req: "completion_request (str ''\<newline>'') (str ''FROM node'') [] = Inr ?req"
    by (simp add: completion_request_def user_prompt_def)
  have call: "stub_client (Inr (completion_of c)) ?req [] = (Inr (completion_of c), [?req])" for c
    by (simp add: stub_client_def)
  have ch: "choices (completion_of c) = \<lparr>message = \<lparr>message_content = c\<rparr>\<rparr> # []" for c
    by (simp add: completion_of_def)
  from missing_content_raises_empty_content_returns
         [where create = "stub_client (Inr (completion_of None))" and s = "[]", OF req call ch]
       missing_content_raises_empty_content_returns
         [where create = "stub_client (Inr (completion_of (Some [])))" and s = "[]", OF req call ch]
       req
  show ?thesis by simp
qed

theorem empty_content_returns_empty_string:
  "add_multistage_builds (stub_client (Inr (completion_of (Some [])))) (str ''\<newline>'')
     (str ''FROM node'') [] [] =
   (Inr [],
    [\<lparr>messages =
        [\<lparr>role = str ''system'', content = multistage_system_prompt\<rparr>,
         \<lparr>role = str ''user'', content = multistage_user_prompt (str ''FROM node'')\<rparr>],
      model = openai_model\<rparr>])"
  by (simp add: add_multistage_builds_def completion_request_def user_prompt_def
      stub_client_def response_text_def completion_of_def sanitize_def strip_def strip_chars_def
      strip_where_def)

subsection \<open>C4\<close>

text \<open>
  C4. For a non-empty sequence of script descriptors, the user prompt is the fenced
  dockerfile, the fixed header, and \<open>len(scripts)\<close> entries joined by \<open>os.linesep\<close>.
  Entry \<open>i\<close> (counted from 0, numbered \<open>i + 1\<close>) holds the script and commands of
  \<open>scripts[i]\<close> as they are, on two lines: the number and the script, a newline, the
  commands, a newline.
\<close>

theorem numbered_entries_of_two_lines:
\<open>scripts \<noteq> [] \<Longrightarrow> list_all script_descriptor scripts \<Longrightarrow>
 \<exists>entries.
   user_prompt os_linesep dockerfile scripts =
     Inr (multistage_user_prompt dockerfile @ prompt_npm_scripts_invoked @ join os_linesep entries) \<and>
   length entries = length scripts \<and>
   (\<forall>i < length scripts.
      entries ! i =
        str_int (i + 1) @ str ''. script: `'' @ the ((scripts ! i) (str ''script'')) @ str ''`
commands: `'' @ the ((scripts ! i) (str ''commands'')) @ str ''`
'')\<close>
proof -
  assume ne: "scripts \<noteq> []" and ok: "list_all script_descriptor scripts"
  let ?entries = "map (\<lambda>j. entry j (scripts ! j)) [0 ..< length scripts]"
  have "user_prompt os_linesep dockerfile scripts =
     Inr (multistage_user_prompt dockerfile @ prompt_npm_scripts_invoked @ join os_linesep ?entries)"
    using ne ok by (simp add: user_prompt_descriptors)
  moreover have "length ?entries = length scripts" by simp
  moreover have "\<forall>i < length scripts. ?entries ! i =
        str_int (i + 1) @ str ''. script: `'' @ the ((scripts ! i) (str ''script'')) @ str ''`\<newline>commands: `'' @ the ((scripts ! i) (str ''commands'')) @ str ''`\<newline>''"
    by (simp add: entry_def)
  ultimately show ?thesis by blast
qed

theorem numbered_entries_of_two_lines_witness:
\<open>[build_tsc, test_jest] \<noteq> [] \<and> list_all script_descriptor [build_tsc, test_jest] \<and>
 user_prompt (str ''\<newline>'') (str ''FROM node'') [build_tsc, test_jest] =
   Inr (multistage_user_prompt (str ''FROM node'') @ prompt_npm_scripts_invoked @ str ''1. script: `build`
commands: `tsc`

2. script: `test`
commands: `jest`
'')\<close>
proof -
  have ne: "[build_tsc, test_jest] \<noteq> []" by simp
  have ok: "list_all script_descriptor [build_tsc, test_jest]"
    by (simp add: script_descriptor_def build_tsc_def test_jest_def str_def)
  from numbered_entries_of_two_lines [OF ne ok, of "str ''\<newline>''" "str ''FROM node''"]
  obtain entries where
    up: "user_prompt (str ''\<newline>'') (str ''FROM node'') [build_tsc, test_jest] =
          Inr (multistage_user_prompt (str ''FROM node'') @ prompt_npm_scripts_invoked @
               join (str ''\<newline>'') entries)"
    and len: "length entries = length [build_tsc, test_jest]"
    and nth: "\<forall>i < length [build_tsc, test_jest]. entries ! i =
        str_int (i + 1) @ str ''. script: `'' @ the (([build_tsc, test_jest] ! i) (str ''script'')) @
        str ''`\<newline>commands: `'' @ the (([build_tsc, test_jest] ! i) (str ''commands'')) @ str ''`\<newline>''"
    by blast
  from nth have e0: "entries ! 0 = str ''1. script: `build`\<newline>commands: `tsc`\<newline>''"
    by (simp add: build_tsc_def str_def str_int.simps)
  from nth have e1: "entries ! 1 = str ''2. script: `test`\<newline>commands: `jest`\<newline>''"
    by (simp add: test_jest_def str_def str_int.simps)
  from len have "entries = [entries ! 0, entries ! 1]"
    by (cases entries; cases "tl entries") auto
  with e0 e1 have "entries = [str ''1. script: `build`\<newline>commands: `tsc`\<newline>'',
                              str ''2. script: `test`\<newline>commands: `jest`\<newline>'']"
    by simp
  then have "join (str ''\<newline>'') entries =
      str ''1. script: `build`\<newline>commands: `tsc`\<newline>\<newline>2. script: `test`\<newline>commands: `jest`\<newline>''"
    by (simp add: str_def)
  with up ne ok show ?thesis by simp
qed

theorem entry_is_not_the_single_line:
\<open>user_prompt (str ''\<newline>'') (str ''FROM node'')
     [[str ''script'' \<mapsto> str ''build'', str ''commands'' \<mapsto> str ''tsc'']] =
   Inr (multistage_user_prompt (str ''FROM node'') @ prompt_npm_scripts_invoked @ str ''1. script: `build`
commands: `tsc`
'') \<and>
 \<not> sublist (spec_script_line 1 (str ''build'') (str ''tsc''))
     (multistage_user_prompt (str ''FROM node'') @ prompt_npm_scripts_invoked @ str ''1. script: `build`
commands: `tsc`
'')\<close>
proof -
  have "\<not> sublist (spec_script_line 1 (str ''build'') (str ''tsc''))
     (multistage_user_prompt (str ''FROM node'') @ prompt_npm_scripts_invoked @ str ''1. script: `build`\<newline>commands: `tsc`\<newline>'')"
    by (simp add: spec_script_line_def multistage_user_prompt_def prompt_npm_scripts_invoked_def
        str_def str_int.simps sublist_Cons_right)
  moreover have "user_prompt (str ''\<newline>'') (str ''FROM node'')
     [[str ''script'' \<mapsto> str ''build'', str ''commands'' \<mapsto> str ''tsc'']] =
   Inr (multistage_user_prompt (str ''FROM node'') @ prompt_npm_scripts_invoked @ str ''1. script: `build`\<newline>commands: `tsc`\<newline>'')"
    by (simp add: user_prompt_def scripts_description_loop.simps description_def getitem_def
        str_int.simps str_def)
  ultimately show ?thesis by simp
qed

subsection \<open>C5\<close>




subsection \<open>C6\<close>

text \<open>
  C6. For every dockerfile, a call whose scripts all have the keys \<open>script\<close> and
  \<open>commands\<close> sends the provider one request, whose messages are the system message
  with the constant system prompt and then the user message with the rendered user
  prompt, whatever the provider answers. A call with a script that lacks one of the
  keys raises \<open>KeyError\<close> and sends the provider nothing.
\<close>

theorem two_messages_system_then_user:
  "(list_all script_descriptor scripts \<longrightarrow>
      (\<exists>up. user_prompt os_linesep dockerfile scripts = Inr up \<and>
         snd (add_multistage_builds (stub_client answer) os_linesep dockerfile scripts sent) =
           sent @ [\<lparr>messages =
                      [\<lparr>role = str ''system'', content = multistage_system_prompt\<rparr>,
                       \<lparr>role = str ''user'', content = up\<rparr>],
                    model = openai_model\<rparr>])) \<and>
   (\<not> list_all script_descriptor scripts \<longrightarrow>
      (\<exists>key. add_multistage_builds (stub_client answer) os_linesep dockerfile scripts sent =
         (Inl (KeyError key), sent)))"
proof (intro conjI impI)
  assume "list_all script_descriptor scripts"
  then obtain up where
    "user_prompt os_linesep dockerfile scripts = Inr up" and
    "completion_request os_linesep dockerfile scripts =
            Inr \<lparr>messages =
                   [\<lparr>role = str ''system'', content = multistage_system_prompt\<rparr>,
                    \<lparr>role = str ''user'', content = up\<rparr>],
                 model = openai_model\<rparr>"
    using completion_request_descriptors by blast
  then show "\<exists>up. user_prompt os_linesep dockerfile scripts = Inr up \<and>
         snd (add_multistage_builds (stub_client answer) os_linesep dockerfile scripts sent) =
           sent @ [\<lparr>messages =
                      [\<lparr>role = str ''system'', content = multistage_system_prompt\<rparr>,
                       \<lparr>role = str ''user'', content = up\<rparr>],
                    model = openai_model\<rparr>]"
    by (cases answer) (simp_all add: add_multistage_builds_def stub_client_def)
next
  assume "\<not> list_all script_descriptor scripts"
  then obtain key where
    "completion_request os_linesep dockerfile scripts = Inl (KeyError key)"
    using completion_request_missing_key by blast
  then show "\<exists>key. add_multistage_builds (stub_client answer) os_linesep dockerfile scripts sent =
         (Inl (KeyError key), sent)"
    by (simp add: add_multistage_builds_def)
qed

theorem two_messages_system_then_user_witness:
  "list_all script_descriptor [build_tsc, test_jest] \<and>
   snd (add_multistage_builds (stub_client (Inr (completion_of (Some (str ''FROM node'')))))
          (str ''\<newline>'') (str ''FROM node:18'') [build_tsc, test_jest] []) =
     [\<lparr>messages =
         [\<lparr>role = str ''system'', content = multistage_system_prompt\<rparr>,
          \<lparr>role = str ''user'',
           content = multistage_user_prompt (str ''FROM node:18'') @ prompt_npm_scripts_invoked @
             str ''1. script: `build`\<newline>commands: `tsc`\<newline>\<newline>2. script: `test`\<newline>commands: `jest`\<newline>''\<rparr>],
       model = openai_model\<rparr>] \<and>
   \<not> list_all script_descriptor [build_tsc, Map.empty] \<and>
   snd (add_multistage_builds (stub_client (Inr (completion_of (Some (str ''FROM node'')))))
          (str ''\<newline>'') (str ''FROM node:18'') [build_tsc, Map.empty] []) = []"
proof -
  have ok: "list_all script_descriptor [build_tsc, test_jest]"
    by (simp add: script_descriptor_def build_tsc_def test_jest_def str_def)
  have bad: "\<not> list_all script_descriptor [build_tsc, Map.empty]"
    by (simp add: script_descriptor_def)
  have up: "user_prompt (str ''\<newline>'') (str ''FROM node:18'') [build_tsc, test_jest] =
     Inr (multistage_user_prompt (str ''FROM node:18'') @ prompt_npm_scripts_invoked @
             str ''1. script: `build`\<newline>commands: `tsc`\<newline>\<newline>2. script: `test`\<newline>commands: `jest`\<newline>'')"
    by (simp add: user_prompt_def scripts_description_loop.simps description_def getitem_def
        build_tsc_def test_jest_def str_int.simps str_def)
  from two_messages_system_then_user [of "[build_tsc, test_jest]" "str ''\<newline>''" "str ''FROM node:18''"
      "Inr (completion_of (Some (str ''FROM node'')))" "[]"] up ok
  have 1: "snd (add_multistage_builds (stub_client (Inr (completion_of (Some (str ''FROM node'')))))
          (str ''\<newline>'') (str ''FROM node:18'') [build_tsc, test_jest] []) =
     [\<lparr>messages =
         [\<lparr>role = str ''system'', content = multistage_system_prompt\<rparr>,
          \<lparr>role = str ''user'',
           content = multistage_user_prompt (str ''FROM node:18'') @ prompt_npm_scripts_invoked @
             str ''1. script: `build`\<newline>commands: `tsc`\<newline>\<newline>2. script: `test`\<newline>commands: `jest`\<newline>''\<rparr>],
       model = openai_model\<rparr>]"
    by auto
  from two_messages_system_then_user [of "[build_tsc, Map.empty]" "str ''\<newline>''" "str ''FROM node:18''"
      "Inr (completion_of (Some (str ''FROM node'')))" "[]"] bad
  have 2: "snd (add_multistage_builds (stub_client (Inr (completion_of (Some (str ''FROM node'')))))
          (str ''\<newline>'') (str ''FROM node:18'') [build_tsc, Map.empty] []) = []"
    by auto
  from ok bad 1 2 show ?thesis by blast
qed

theorem no_request_when_key_missing:
  "add_multistage_builds (stub_client (Inr (completion_of (Some (str ''FROM node'')))))
     (str ''\<newline>'') (str ''FROM node:18'') [Map.empty] [] =
   (Inl (KeyError (str ''script'')), [])"
  by (simp add: add_multistage_builds_def completion_request_def user_prompt_def
      scripts_description_loop.simps description_def getitem_def)

subsection \<open>C7\<close>

text \<open>
  C7. Sanitizing twice gives the same as sanitizing once exactly when the sanitized
  text neither begins nor ends with a backtick.
\<close>

theorem sanitize_idempotent_iff_clean:
  "sanitize (sanitize x) = sanitize x \<longleftrightarrow>
   \<not> starts_or_ends_with (\<lambda>c. c = backtick) (sanitize x)"
proof
  assume idem: "sanitize (sanitize x) = sanitize x"
  show "\<not> starts_or_ends_with (\<lambda>c. c = backtick) (sanitize x)"
  proof
    assume "starts_or_ends_with (\<lambda>c. c = backtick) (sanitize x)"
    then have "starts_or_ends_with (\<lambda>c. c = backtick) (strip (sanitize x))"
      by (simp add: strip_def strip_where_id sanitize_no_space_ends)
    then have "length (strip_chars (str ''```'') (strip (sanitize x))) < length (strip (sanitize x))"
      unfolding strip_chars_fence by (rule strip_where_shorter)
    moreover have "length (sanitize (sanitize x)) \<le> length (strip_chars (str ''```'') (strip (sanitize x)))"
      by (simp add: sanitize_def [of "sanitize x"] strip_def length_strip_where)
    moreover have "length (strip (sanitize x)) \<le> length (sanitize x)"
      by (simp add: strip_def length_strip_where)
    ultimately have "length (sanitize (sanitize x)) < length (sanitize x)" by simp
    with idem show False by simp
  qed
next
  assume clean: "\<not> starts_or_ends_with (\<lambda>c. c = backtick) (sanitize x)"
  have 1: "strip (sanitize x) = sanitize x"
    by (simp add: strip_def strip_where_id sanitize_no_space_ends)
  have 2: "strip_chars (str ''```'') (sanitize x) = sanitize x"
    unfolding strip_chars_fence using clean by (rule strip_where_id)
  show "sanitize (sanitize x) = sanitize x"
    by (simp add: sanitize_def [of "sanitize x"] 1 2)
qed

theorem sanitize_not_idempotent:
  "sanitize (str ''` `a'') = str ''`a'' \<and>
   sanitize (sanitize (str ''` `a'')) = str ''a'' \<and>
   sanitize (sanitize (str ''` `a'')) \<noteq> sanitize (str ''` `a'')"
  by (simp add: sanitize_def strip_def strip_chars_def strip_where_def isspace_def str_def)

subsection \<open>C8\<close>




subsection \<open>C10\<close>




end
